theory Spec2Isabelle
  imports Main
begin

section \<open>The RSO sample application (\<^verbatim>\<open>sample_apps/rso_sample_apps/python/main.py\<close>)\<close>

text \<open>
  The program is a FastAPI application with three handlers (\<^verbatim>\<open>login\<close>,
  \<^verbatim>\<open>oauth_callback\<close>, \<^verbatim>\<open>show_data\<close>), a global dictionary \<^verbatim>\<open>CONFIG\<close> filled when
  the module is loaded, and the helper \<^verbatim>\<open>json2table\<close>. The embedding keeps that shape:
  Python values as datatypes, the dictionary as a map, every exception as a value of
  \<open>error\<close>, and the calls of the \<^verbatim>\<open>requests\<close> library as steps on an explicit state
  that records each call, answered by a network that is a parameter of the model.
\<close>

subsection \<open>Python values and their text\<close>

text \<open>
  What \<^verbatim>\<open>resp.json()\<close> returns: \<^verbatim>\<open>None\<close>, a bool, an int, a float, a str, a list or
  a dict (keys are always str; \<^verbatim>\<open>items()\<close> iterates in insertion order, so a dict is
  the list of its items). The program never computes with a float, it only prints it, so
  a float is held as the text Python prints for it. An int is any integer: the decoder
  builds it with \<^verbatim>\<open>int\<close>, and what \<^verbatim>\<open>int\<close> accepts \<^verbatim>\<open>str\<close> prints.
\<close>

datatype json =
    JNull
  | JBool bool
  | JInt int
  | JFloat string
  | JStr string
  | JArr "json list"
  | JObj "(string \<times> json) list"

text \<open>A value of \<^verbatim>\<open>CONFIG\<close>: \<^verbatim>\<open>os.getenv\<close> gives a str, or \<^verbatim>\<open>None\<close> for an unset variable.\<close>

datatype pyval = PyNone | PyStr string

datatype error =
    KeyError string
  | TypeError
  | AttributeError
  | JSONDecodeError
  | RequestException

text \<open>Decimal digits of a natural number, and \<^verbatim>\<open>str\<close> of an int.\<close>

fun digits10 :: "nat \<Rightarrow> string" where
  "digits10 n =
     (if n < 10 then [''0123456789'' ! n]
      else digits10 (n div 10) @ [''0123456789'' ! (n mod 10)])"

definition int_str :: "int \<Rightarrow> string" where
  "int_str i = (if i < 0 then ''-'' @ digits10 (nat (- i)) else digits10 (nat i))"

text \<open>
  A Python str is a sequence of Unicode code points. It is held as its UTF-8 bytes (a
  surrogate as its three bytes), so an ASCII character is one \<open>char\<close> and concatenation
  is concatenation. Only \<^verbatim>\<open>repr\<close> looks inside a str: it copies the printable code
  points and escapes the others. Which code points above U+007F are printable
  (\<^verbatim>\<open>str.isprintable\<close>) is a table of the Unicode database the interpreter was built
  with; that table is a parameter of the model.
\<close>

type_synonym unicode_table = "nat \<Rightarrow> bool"

definition hex_digit :: "nat \<Rightarrow> char" where
  "hex_digit d = ''0123456789abcdef'' ! d"

text \<open>The escapes \<^verbatim>\<open>\xhh\<close>, \<^verbatim>\<open>\uhhhh\<close> and \<^verbatim>\<open>\Uhhhhhhhh\<close>, by the size of the code point.\<close>

definition escape_code_point :: "nat \<Rightarrow> string" where
  "escape_code_point cp =
     (if cp < 0x100
        then [CHR 0x5C, CHR ''x'', hex_digit (cp div 16), hex_digit (cp mod 16)]
      else if cp < 0x10000
        then [CHR 0x5C, CHR ''u'', hex_digit (cp div 4096), hex_digit (cp div 256 mod 16),
              hex_digit (cp div 16 mod 16), hex_digit (cp mod 16)]
      else [CHR 0x5C, CHR ''U'', hex_digit (cp div 268435456 mod 16),
            hex_digit (cp div 16777216 mod 16), hex_digit (cp div 1048576 mod 16),
            hex_digit (cp div 65536 mod 16), hex_digit (cp div 4096 mod 16),
            hex_digit (cp div 256 mod 16), hex_digit (cp div 16 mod 16), hex_digit (cp mod 16)])"

text \<open>
  An ASCII character inside the quotes \<open>q\<close>: the quote character and the backslash get a
  backslash, tab, newline and carriage return their letter, the other control characters
  and U+007F the escape \<^verbatim>\<open>\xhh\<close>; the rest is copied.
\<close>

definition repr_ascii :: "char \<Rightarrow> char \<Rightarrow> string" where
  "repr_ascii q c =
     (let n = (of_char c :: nat) in
      if c = q \<or> c = CHR 0x5C then [CHR 0x5C, c]
      else if c = CHR 0x09 then [CHR 0x5C, CHR ''t'']
      else if c = CHR 0x0A then [CHR 0x5C, CHR ''n'']
      else if c = CHR 0x0D then [CHR 0x5C, CHR ''r'']
      else if n < 32 \<or> n = 127 then escape_code_point n
      else [c])"

text \<open>
  The number of bytes of the UTF-8 sequence that starts with the byte \<open>b\<close>, and the code
  point a sequence encodes. (A byte sequence that is not UTF-8 is the text of no str;
  there a stray byte is read as a sequence of its own.)
\<close>

definition utf8_length :: "nat \<Rightarrow> nat" where
  "utf8_length b = (if b < 0xC0 then 1 else if b < 0xE0 then 2 else if b < 0xF0 then 3 else 4)"

fun utf8_code_point :: "nat list \<Rightarrow> nat" where
  "utf8_code_point [b0] = b0"
| "utf8_code_point [b0, b1] = b0 mod 32 * 64 + b1 mod 64"
| "utf8_code_point [b0, b1, b2] = b0 mod 16 * 4096 + b1 mod 64 * 64 + b2 mod 64"
| "utf8_code_point [b0, b1, b2, b3] =
     b0 mod 8 * 262144 + b1 mod 64 * 4096 + b2 mod 64 * 64 + b3 mod 64"
| "utf8_code_point bs = 0"

text \<open>
  The characters of a str between the quotes \<open>q\<close>, code point by code point: a code
  point above U+007F is copied when it is printable and escaped otherwise.
\<close>

fun repr_chars :: "unicode_table \<Rightarrow> char \<Rightarrow> string \<Rightarrow> string" where
  "repr_chars isprintable q [] = []"
| "repr_chars isprintable q (c # cs) =
     (if (of_char c :: nat) < 0x80 then repr_ascii q c @ repr_chars isprintable q cs
      else
        (let n = utf8_length (of_char c);
             bs = c # take (n - 1) cs;
             cp = utf8_code_point (map of_char bs)
         in (if isprintable cp then bs else escape_code_point cp)
            @ repr_chars isprintable q (drop (n - 1) cs)))"

text \<open>
  \<^verbatim>\<open>repr\<close> of a str: in single quotes, unless the text holds a single quote and no
  double quote.
\<close>

definition repr_str :: "unicode_table \<Rightarrow> string \<Rightarrow> string" where
  "repr_str isprintable s =
     (let q = (if CHR 0x27 \<in> set s \<and> CHR 0x22 \<notin> set s then CHR 0x22 else CHR 0x27)
      in [q] @ repr_chars isprintable q s @ [q])"

text \<open>\<^verbatim>\<open>', '.join(parts)\<close>, the separator of the items of a printed list or dict.\<close>

fun comma_join :: "string list \<Rightarrow> string" where
  "comma_join [] = []"
| "comma_join [x] = x"
| "comma_join (x # y # ys) = x @ '', '' @ comma_join (y # ys)"

fun py_repr :: "unicode_table \<Rightarrow> json \<Rightarrow> string" where
  "py_repr isprintable JNull = ''None''"
| "py_repr isprintable (JBool b) = (if b then ''True'' else ''False'')"
| "py_repr isprintable (JInt i) = int_str i"
| "py_repr isprintable (JFloat r) = r"
| "py_repr isprintable (JStr s) = repr_str isprintable s"
| "py_repr isprintable (JArr xs) = ''['' @ comma_join (map (py_repr isprintable) xs) @ '']''"
| "py_repr isprintable (JObj kvs) =
     ''{'' @ comma_join (map (\<lambda>(k, v). repr_str isprintable k @ '': '' @ py_repr isprintable v) kvs)
       @ ''}''"

text \<open>
  \<^verbatim>\<open>f'{v}'\<close> is \<^verbatim>\<open>format(v, '')\<close>, which is \<^verbatim>\<open>str(v)\<close> for all these types: a str is
  inserted as it is, every other value as its \<^verbatim>\<open>repr\<close>.
\<close>

fun py_str :: "unicode_table \<Rightarrow> json \<Rightarrow> string" where
  "py_str isprintable (JStr s) = s"
| "py_str isprintable j = py_repr isprintable j"

text \<open>\<^verbatim>\<open>f"{v}"\<close> for a value of \<^verbatim>\<open>CONFIG\<close>: \<^verbatim>\<open>None\<close> prints as the text \<^verbatim>\<open>None\<close>.\<close>

fun py_format :: "pyval \<Rightarrow> string" where
  "py_format PyNone = ''None''"
| "py_format (PyStr s) = s"

text \<open>\<^verbatim>\<open>j.items()\<close>: only a dict has the attribute.\<close>

fun json_items :: "json \<Rightarrow> error + (string \<times> json) list" where
  "json_items (JObj kvs) = Inr kvs"
| "json_items j = Inl AttributeError"

subsection \<open>The configuration, lines 18 to 38\<close>

definition TIMEOUT :: int where
  "TIMEOUT = 10"

text \<open>The environment after \<^verbatim>\<open>load_dotenv\<close>: a map from variable names to their text.\<close>

type_synonym environ = "string \<rightharpoonup> string"

definition os_getenv :: "environ \<Rightarrow> string \<Rightarrow> pyval" where
  "os_getenv env k = (case env k of None \<Rightarrow> PyNone | Some s \<Rightarrow> PyStr s)"

text \<open>\<^verbatim>\<open>d[k]\<close> raises \<^verbatim>\<open>KeyError\<close> for a missing key.\<close>

definition getitem :: "(string \<rightharpoonup> pyval) \<Rightarrow> string \<Rightarrow> error + pyval" where
  "getitem d k = (case d k of None \<Rightarrow> Inl (KeyError k) | Some v \<Rightarrow> Inr v)"

text \<open>\<^verbatim>\<open>v + t\<close> for a str \<open>t\<close>, as \<^verbatim>\<open>+=\<close> computes it: \<^verbatim>\<open>None + t\<close> raises \<^verbatim>\<open>TypeError\<close>.\<close>

fun py_add :: "pyval \<Rightarrow> string \<Rightarrow> error + pyval" where
  "py_add (PyStr s) t = Inr (PyStr (s @ t))"
| "py_add PyNone t = Inl TypeError"

text \<open>Sequencing of steps that may raise: the first exception ends the computation.\<close>

definition seq :: "error + 'a \<Rightarrow> ('a \<Rightarrow> error + 'b) \<Rightarrow> error + 'b" where
  "seq r f = (case r of Inl e \<Rightarrow> Inl e | Inr x \<Rightarrow> f x)"

text \<open>
  The module's top-level statements on \<^verbatim>\<open>CONFIG\<close>, in order: the dictionary display of
  lines 19 to 29, the three derived URLs of lines 30 to 32, and the sign-in URL built by
  one assignment and four \<^verbatim>\<open>+=\<close> (lines 34 to 38). Each \<^verbatim>\<open>+=\<close> first reads
  \<^verbatim>\<open>CONFIG["SIGN_IN_URL"]\<close>, then evaluates the f-string.
\<close>

definition module_init :: "environ \<Rightarrow> error + (string \<rightharpoonup> pyval)" where
  "module_init env =
    (let c0 = [''RSO_BASE_URL'' \<mapsto> os_getenv env ''RSO_BASE_URL'',
               ''RSO_CLIENT_ID'' \<mapsto> os_getenv env ''RSO_CLIENT_ID'',
               ''RSO_CLIENT_SECRET'' \<mapsto> os_getenv env ''RSO_CLIENT_SECRET'',
               ''APP_BASE_URL'' \<mapsto> os_getenv env ''APP_BASE_URL'',
               ''APP_CALLBACK_PATH'' \<mapsto> os_getenv env ''APP_CALLBACK_PATH'',
               ''CLIENT_ID'' \<mapsto> os_getenv env ''CLIENT_ID'',
               ''RESPONSE_TYPE'' \<mapsto> os_getenv env ''RESPONSE_TYPE'',
               ''SCOPE'' \<mapsto> os_getenv env ''SCOPE'',
               ''RGAPI_TOKEN'' \<mapsto> os_getenv env ''RGAPI_TOKEN''] in
     seq (getitem c0 ''RSO_BASE_URL'') (\<lambda>rso_base.
     let c1 = c0(''TOKEN_URL'' \<mapsto> PyStr (py_format rso_base @ ''/token'')) in
     seq (getitem c1 ''APP_BASE_URL'') (\<lambda>app_base.
     seq (getitem c1 ''APP_CALLBACK_PATH'') (\<lambda>callback_path.
     let c2 = c1(''APP_CALLBACK_URL'' \<mapsto> PyStr (py_format app_base @ py_format callback_path)) in
     seq (getitem c2 ''RSO_BASE_URL'') (\<lambda>rso_base.
     let c3 = c2(''AUTHORIZE_URL'' \<mapsto> PyStr (py_format rso_base @ ''/authorize'')) in
     seq (getitem c3 ''AUTHORIZE_URL'') (\<lambda>authorize_url.
     let c4 = c3(''SIGN_IN_URL'' \<mapsto> PyStr (py_format authorize_url)) in
     seq (getitem c4 ''SIGN_IN_URL'') (\<lambda>u.
     seq (getitem c4 ''APP_CALLBACK_URL'') (\<lambda>callback_url.
     seq (py_add u (''?redirect_uri='' @ py_format callback_url)) (\<lambda>u.
     let c5 = c4(''SIGN_IN_URL'' \<mapsto> u) in
     seq (getitem c5 ''SIGN_IN_URL'') (\<lambda>u.
     seq (getitem c5 ''RSO_CLIENT_ID'') (\<lambda>client_id.
     seq (py_add u (''&client_id='' @ py_format client_id)) (\<lambda>u.
     let c6 = c5(''SIGN_IN_URL'' \<mapsto> u) in
     seq (getitem c6 ''SIGN_IN_URL'') (\<lambda>u.
     seq (getitem c6 ''RESPONSE_TYPE'') (\<lambda>response_type.
     seq (py_add u (''&response_type='' @ py_format response_type)) (\<lambda>u.
     let c7 = c6(''SIGN_IN_URL'' \<mapsto> u) in
     seq (getitem c7 ''SIGN_IN_URL'') (\<lambda>u.
     seq (getitem c7 ''SCOPE'') (\<lambda>scope.
     seq (py_add u (''&scope='' @ py_format scope)) (\<lambda>u.
     Inr (c7(''SIGN_IN_URL'' \<mapsto> u))))))))))))))))))))"

text \<open>
  The dictionary the handlers see once the module is loaded. (Loading never raises, see
  \<open>module_init_loaded\<close>; the empty dictionary stands for a module that failed to load.)
\<close>

definition loaded :: "environ \<Rightarrow> (string \<rightharpoonup> pyval)" where
  "loaded env = (case module_init env of Inl e \<Rightarrow> Map.empty | Inr c \<Rightarrow> c)"

subsection \<open>The \<^verbatim>\<open>requests\<close> calls\<close>

text \<open>
  A call of \<^verbatim>\<open>requests.post\<close> or \<^verbatim>\<open>requests.get\<close> is recorded with the arguments the
  program passes. The response holds what its body decodes to: \<open>None\<close> for a body that
  is not a JSON text (the empty body is one), for which \<^verbatim>\<open>resp.json()\<close> raises.
\<close>

datatype http_verb = GET | POST

datatype http_auth = NoAuth | HTTPBasicAuth pyval pyval

record http_request =
  verb :: http_verb
  url :: pyval
  auth :: http_auth
  headers :: "(string \<times> pyval) list"
  form :: "(string \<times> pyval) list"
  timeout :: int

record http_response =
  status_code :: int
  json_body :: "json option"

text \<open>
  The network answers a call, given the calls made before it, with a response, or with
  \<open>None\<close> when \<^verbatim>\<open>requests\<close> raises (no connection, timeout, bad URL).
\<close>

type_synonym network = "http_request list \<Rightarrow> http_request \<Rightarrow> http_response option"

text \<open>The state of the running program: the global dictionary and the calls made so far.\<close>

record app_state =
  CONFIG :: "string \<rightharpoonup> pyval"
  sent :: "http_request list"

type_synonym 'a action = "app_state \<Rightarrow> (error + 'a) \<times> app_state"

definition ret :: "'a \<Rightarrow> 'a action" where
  "ret x s = (Inr x, s)"

definition lift :: "error + 'a \<Rightarrow> 'a action" where
  "lift r s = (r, s)"

definition and_then :: "'a action \<Rightarrow> ('a \<Rightarrow> 'b action) \<Rightarrow> 'b action" where
  "and_then m f s = (case m s of (Inl e, s') \<Rightarrow> (Inl e, s') | (Inr x, s') \<Rightarrow> f x s')"

definition config_get :: "string \<Rightarrow> pyval action" where
  "config_get k s = (getitem (CONFIG s) k, s)"

definition requests_call :: "network \<Rightarrow> http_request \<Rightarrow> http_response action" where
  "requests_call net rq s =
     ((case net (sent s) rq of None \<Rightarrow> Inl RequestException | Some r \<Rightarrow> Inr r),
      s\<lparr>sent := sent s @ [rq]\<rparr>)"

definition requests_post ::
  "network \<Rightarrow> pyval \<Rightarrow> http_auth \<Rightarrow> (string \<times> pyval) list \<Rightarrow> int \<Rightarrow> http_response action" where
  "requests_post net u a d t =
     requests_call net \<lparr>verb = POST, url = u, auth = a, headers = [], form = d, timeout = t\<rparr>"

definition requests_get ::
  "network \<Rightarrow> pyval \<Rightarrow> (string \<times> pyval) list \<Rightarrow> int \<Rightarrow> http_response action" where
  "requests_get net u h t =
     requests_call net \<lparr>verb = GET, url = u, auth = NoAuth, headers = h, form = [], timeout = t\<rparr>"

definition resp_json :: "http_response \<Rightarrow> error + json" where
  "resp_json r = (case json_body r of None \<Rightarrow> Inl JSONDecodeError | Some j \<Rightarrow> Inr j)"

subsection \<open>\<^verbatim>\<open>login\<close>, lines 41 to 46\<close>

definition login :: "string action" where
  "login =
     and_then (config_get ''SIGN_IN_URL'') (\<lambda>u1.
     and_then (config_get ''SIGN_IN_URL'') (\<lambda>u2.
     ret (''\<newline>''
       @ ''    <h1>login</h1>\<newline>''
       @ ''    <a href=\"'' @ py_format u1 @ ''\">Sign In --> '' @ py_format u2 @ ''</a>\<newline>''
       @ ''    '')))"

subsection \<open>\<^verbatim>\<open>oauth_callback\<close>, lines 49 to 68\<close>

text \<open>The loop of lines 65 and 66, on the items still to visit.\<close>

fun query_loop :: "unicode_table \<Rightarrow> string \<Rightarrow> (string \<times> json) list \<Rightarrow> string" where
  "query_loop isprintable query_string [] = query_string"
| "query_loop isprintable query_string ((k, v) # kvs) =
     query_loop isprintable (query_string @ k @ ''='' @ py_str isprintable v @ ''&'') kvs"

definition oauth_callback :: "unicode_table \<Rightarrow> network \<Rightarrow> string \<Rightarrow> string action" where
  "oauth_callback isprintable net code =
     and_then (config_get ''TOKEN_URL'') (\<lambda>token_url.
     and_then (config_get ''RSO_CLIENT_ID'') (\<lambda>client_id.
     and_then (config_get ''RSO_CLIENT_SECRET'') (\<lambda>client_secret.
     and_then (config_get ''APP_CALLBACK_URL'') (\<lambda>callback_url.
     and_then (requests_post net token_url (HTTPBasicAuth client_id client_secret)
                 [(''grant_type'', PyStr ''authorization_code''),
                  (''code'', PyStr code),
                  (''redirect_uri'', callback_url)]
                 TIMEOUT) (\<lambda>resp.
     and_then (lift (resp_json resp)) (\<lambda>j.
     and_then (if j \<noteq> JNull
               then and_then (lift (resp_json resp)) (\<lambda>j'.
                    and_then (lift (json_items j')) (\<lambda>kvs.
                    ret (query_loop isprintable [] kvs)))
               else ret []) (\<lambda>query_string.
     ret (''<script>window.location.href = \"/show-data/?'' @ query_string
            @ ''\";</script>''))))))))"

subsection \<open>\<^verbatim>\<open>json2table\<close>, lines 71 to 105\<close>

definition table_style :: string where
  "table_style = ''\<newline>''
     @ ''            <style type=\"text/css\">\<newline>''
     @ ''        .tg  {border-collapse:collapse;border-spacing:0;}\<newline>''
     @ ''        .tg td{border-color:black;border-style:solid;border-width:1px;font-family:Arial, sans-serif;font-size:14px;\<newline>''
     @ ''        overflow:hidden;padding:10px 5px;word-break:normal;}\<newline>''
     @ ''        .tg th{border-color:black;border-style:solid;border-width:1px;font-family:Arial, sans-serif;font-size:14px;\<newline>''
     @ ''        font-weight:normal;overflow:hidden;padding:10px 5px;word-break:normal;}\<newline>''
     @ ''        .tg .tg-0lax{text-align:left;vertical-align:top}\<newline>''
     @ ''        </style>''"

definition table_head :: string where
  "table_head = ''\<newline>''
     @ ''        <table class=\"tg\">\<newline>''
     @ ''        <thead>\<newline>''
     @ ''        <tr>\<newline>''
     @ ''            <th class=\"tg-0lax\">key</th>\<newline>''
     @ ''            <th class=\"tg-0lax\">value</th>\<newline>''
     @ ''        </tr>\<newline>''
     @ ''        </thead>\<newline>''
     @ ''\<newline>''
     @ ''        <tbody>''"

definition table_foot :: string where
  "table_foot = ''\<newline>''
     @ ''    </tbody>\<newline>''
     @ ''    </table>\<newline>''
     @ ''        ''"

text \<open>The f-string of lines 94 to 98: one row, with the key and the value put in as they are.\<close>

definition table_row :: "unicode_table \<Rightarrow> string \<Rightarrow> json \<Rightarrow> string" where
  "table_row isprintable k v = ''\<newline>''
     @ ''                <tr>\<newline>''
     @ ''                    <td class=\"tg-0lax\">'' @ k @ ''</td>\<newline>''
     @ ''                    <td class=\"tg-0lax\">'' @ py_str isprintable v @ ''<br></td>\<newline>''
     @ ''                </tr>''"

text \<open>The loop of lines 93 to 98, on the items still to visit.\<close>

fun table_loop :: "unicode_table \<Rightarrow> string \<Rightarrow> (string \<times> json) list \<Rightarrow> string" where
  "table_loop isprintable html [] = html"
| "table_loop isprintable html ((k, v) # kvs) =
     table_loop isprintable (html @ table_row isprintable k v) kvs"

definition json2table :: "unicode_table \<Rightarrow> json \<Rightarrow> error + string" where
  "json2table isprintable j =
     seq (json_items j) (\<lambda>kvs.
     Inr (table_style @ (table_loop isprintable table_head kvs @ table_foot)))"

subsection \<open>\<^verbatim>\<open>show_data\<close> and its two lookups, lines 108 to 150\<close>

definition get_account_data :: "network \<Rightarrow> string \<Rightarrow> json action" where
  "get_account_data net access_token =
     and_then (requests_get net
                 (PyStr ''https://americas.api.riotgames.com/riot/account/v1/accounts/me'')
                 [(''Authorization'', PyStr (''Bearer '' @ access_token))]
                 TIMEOUT) (\<lambda>resp.
     lift (resp_json resp))"

definition get_champion_rotation_data :: "network \<Rightarrow> pyval \<Rightarrow> json action" where
  "get_champion_rotation_data net token =
     and_then (requests_get net
                 (PyStr ''https://na1.api.riotgames.com/lol/platform/v3/champion-rotations'')
                 [(''X-Riot-Token'', token)]
                 TIMEOUT) (\<lambda>resp.
     lift (resp_json resp))"

definition account_html :: "string \<Rightarrow> string" where
  "account_html t = ''\<newline>''
     @ ''            <h2>account data queried using RSO Access Token:</h2>\<newline>''
     @ ''            <p>'' @ t @ ''</p>\<newline>''
     @ ''        ''"

definition champion_rotation_html :: "string \<Rightarrow> string" where
  "champion_rotation_html t = ''\<newline>''
     @ ''            <h2>champion rotation data queried using RGAPI token</h2>\<newline>''
     @ ''            <p>'' @ t @ ''</p>\<newline>''
     @ ''        ''"

definition show_data :: "unicode_table \<Rightarrow> network \<Rightarrow> string \<Rightarrow> string action" where
  "show_data isprintable net access_token =
     and_then (get_account_data net access_token) (\<lambda>account_data.
     and_then (lift (json2table isprintable account_data)) (\<lambda>account_table.
     and_then (config_get ''RGAPI_TOKEN'') (\<lambda>rgapi_token.
     and_then (get_champion_rotation_data net rgapi_token) (\<lambda>champion_rotation_data.
     and_then (lift (json2table isprintable champion_rotation_data)) (\<lambda>champion_rotation_table.
     ret (''\<newline>''
       @ ''        '' @ account_html account_table @ ''\<newline>''
       @ ''        '' @ champion_rotation_html champion_rotation_table @ ''\<newline>''
       @ ''    ''))))))"

subsection \<open>Example inputs\<close>

text \<open>
  An environment with every variable but \<^verbatim>\<open>CLIENT_ID\<close> set, a network that answers every
  call with status 200 and a given body, a network on which every call raises, and the
  table of printable code points from U+0080 to U+00FF (U+00A1 to U+00FF but the soft
  hyphen U+00AD; the examples hold no code point above U+00FF).
\<close>

definition example_env :: environ where
  "example_env =
     [''RSO_BASE_URL'' \<mapsto> ''https://auth.riotgames.com'',
      ''RSO_CLIENT_ID'' \<mapsto> ''my-client'',
      ''RSO_CLIENT_SECRET'' \<mapsto> ''s3cret'',
      ''APP_BASE_URL'' \<mapsto> ''http://localhost:3000'',
      ''APP_CALLBACK_PATH'' \<mapsto> ''/oauth-callback'',
      ''RESPONSE_TYPE'' \<mapsto> ''code'',
      ''SCOPE'' \<mapsto> ''openid'',
      ''RGAPI_TOKEN'' \<mapsto> ''RGAPI-0000'']"

definition answering :: "json option \<Rightarrow> network" where
  "answering b cs rq = Some \<lparr>status_code = 200, json_body = b\<rparr>"


definition latin1_table :: unicode_table where
  "latin1_table cp = (0xA1 \<le> cp \<and> cp \<le> 0xFF \<and> cp \<noteq> 0xAD)"

section \<open>The loaded configuration\<close>

lemma module_init_eq:
  "module_init env = Inr
     [''RSO_BASE_URL'' \<mapsto> os_getenv env ''RSO_BASE_URL'',
      ''RSO_CLIENT_ID'' \<mapsto> os_getenv env ''RSO_CLIENT_ID'',
      ''RSO_CLIENT_SECRET'' \<mapsto> os_getenv env ''RSO_CLIENT_SECRET'',
      ''APP_BASE_URL'' \<mapsto> os_getenv env ''APP_BASE_URL'',
      ''APP_CALLBACK_PATH'' \<mapsto> os_getenv env ''APP_CALLBACK_PATH'',
      ''CLIENT_ID'' \<mapsto> os_getenv env ''CLIENT_ID'',
      ''RESPONSE_TYPE'' \<mapsto> os_getenv env ''RESPONSE_TYPE'',
      ''SCOPE'' \<mapsto> os_getenv env ''SCOPE'',
      ''RGAPI_TOKEN'' \<mapsto> os_getenv env ''RGAPI_TOKEN'',
      ''TOKEN_URL'' \<mapsto> PyStr (py_format (os_getenv env ''RSO_BASE_URL'') @ ''/token''),
      ''APP_CALLBACK_URL'' \<mapsto>
         PyStr (py_format (os_getenv env ''APP_BASE_URL'') @ py_format (os_getenv env ''APP_CALLBACK_PATH'')),
      ''AUTHORIZE_URL'' \<mapsto> PyStr (py_format (os_getenv env ''RSO_BASE_URL'') @ ''/authorize''),
      ''SIGN_IN_URL'' \<mapsto>
         PyStr (py_format (os_getenv env ''RSO_BASE_URL'') @ ''/authorize''
           @ ''?redirect_uri='' @ py_format (os_getenv env ''APP_BASE_URL'')
           @ py_format (os_getenv env ''APP_CALLBACK_PATH'')
           @ ''&client_id='' @ py_format (os_getenv env ''RSO_CLIENT_ID'')
           @ ''&response_type='' @ py_format (os_getenv env ''RESPONSE_TYPE'')
           @ ''&scope='' @ py_format (os_getenv env ''SCOPE''))]"
  by (simp add: module_init_def seq_def getitem_def Let_def)

lemma module_init_loaded: "module_init env = Inr (loaded env)"
  by (simp add: loaded_def module_init_eq)

lemma loaded_env_keys:
  "loaded env ''RSO_BASE_URL'' = Some (os_getenv env ''RSO_BASE_URL'')"
  "loaded env ''RSO_CLIENT_ID'' = Some (os_getenv env ''RSO_CLIENT_ID'')"
  "loaded env ''RSO_CLIENT_SECRET'' = Some (os_getenv env ''RSO_CLIENT_SECRET'')"
  "loaded env ''APP_BASE_URL'' = Some (os_getenv env ''APP_BASE_URL'')"
  "loaded env ''APP_CALLBACK_PATH'' = Some (os_getenv env ''APP_CALLBACK_PATH'')"
  "loaded env ''CLIENT_ID'' = Some (os_getenv env ''CLIENT_ID'')"
  "loaded env ''RESPONSE_TYPE'' = Some (os_getenv env ''RESPONSE_TYPE'')"
  "loaded env ''SCOPE'' = Some (os_getenv env ''SCOPE'')"
  "loaded env ''RGAPI_TOKEN'' = Some (os_getenv env ''RGAPI_TOKEN'')"
  by (simp_all add: loaded_def module_init_eq)

lemma loaded_TOKEN_URL:
  "loaded env ''TOKEN_URL'' = Some (PyStr (py_format (os_getenv env ''RSO_BASE_URL'') @ ''/token''))"
  by (simp add: loaded_def module_init_eq)

lemma loaded_APP_CALLBACK_URL:
  "loaded env ''APP_CALLBACK_URL'' =
     Some (PyStr (py_format (os_getenv env ''APP_BASE_URL'') @ py_format (os_getenv env ''APP_CALLBACK_PATH'')))"
  by (simp add: loaded_def module_init_eq)

lemma loaded_AUTHORIZE_URL:
  "loaded env ''AUTHORIZE_URL'' = Some (PyStr (py_format (os_getenv env ''RSO_BASE_URL'') @ ''/authorize''))"
  by (simp add: loaded_def module_init_eq)

lemma loaded_SIGN_IN_URL:
  "loaded env ''SIGN_IN_URL'' =
     Some (PyStr (py_format (os_getenv env ''RSO_BASE_URL'') @ ''/authorize''
           @ ''?redirect_uri='' @ py_format (os_getenv env ''APP_BASE_URL'')
           @ py_format (os_getenv env ''APP_CALLBACK_PATH'')
           @ ''&client_id='' @ py_format (os_getenv env ''RSO_CLIENT_ID'')
           @ ''&response_type='' @ py_format (os_getenv env ''RESPONSE_TYPE'')
           @ ''&scope='' @ py_format (os_getenv env ''SCOPE'')))"
  by (simp add: loaded_def module_init_eq)

lemma dom_loaded:
  "dom (loaded env) =
     {''RSO_BASE_URL'', ''RSO_CLIENT_ID'', ''RSO_CLIENT_SECRET'', ''APP_BASE_URL'',
      ''APP_CALLBACK_PATH'', ''CLIENT_ID'', ''RESPONSE_TYPE'', ''SCOPE'', ''RGAPI_TOKEN'',
      ''TOKEN_URL'', ''APP_CALLBACK_URL'', ''AUTHORIZE_URL'', ''SIGN_IN_URL''}"
  by (auto simp add: loaded_def module_init_eq)

lemma query_loop_concat:
  "query_loop isprintable q kvs = q @ concat (map (\<lambda>(k, v). k @ ''='' @ py_str isprintable v @ ''&'') kvs)"
  by (induction kvs arbitrary: q) auto

lemma table_loop_concat:
  "table_loop isprintable html kvs = html @ concat (map (\<lambda>(k, v). table_row isprintable k v) kvs)"
  by (induction kvs arbitrary: html) auto

lemma oauth_callback_run:
  "oauth_callback isprintable net code \<lparr>CONFIG = loaded env, sent = l\<rparr> =
     (let rq = \<lparr>verb = POST,
                url = PyStr (py_format (os_getenv env ''RSO_BASE_URL'') @ ''/token''),
                auth = HTTPBasicAuth (os_getenv env ''RSO_CLIENT_ID'') (os_getenv env ''RSO_CLIENT_SECRET''),
                headers = [],
                form = [(''grant_type'', PyStr ''authorization_code''),
                        (''code'', PyStr code),
                        (''redirect_uri'', PyStr (py_format (os_getenv env ''APP_BASE_URL'')
                             @ py_format (os_getenv env ''APP_CALLBACK_PATH'')))],
                timeout = TIMEOUT\<rparr>
      in ((case net l rq of
             None \<Rightarrow> Inl RequestException
           | Some r \<Rightarrow>
               (case json_body r of
                  None \<Rightarrow> Inl JSONDecodeError
                | Some j \<Rightarrow>
                    if j = JNull
                    then Inr (''<script>window.location.href = \"/show-data/?'' @ ''\";</script>'')
                    else (case json_items j of
                            Inl e \<Rightarrow> Inl e
                          | Inr kvs \<Rightarrow>
                              Inr (''<script>window.location.href = \"/show-data/?''
                                   @ query_loop isprintable [] kvs @ ''\";</script>'')))),
          \<lparr>CONFIG = loaded env, sent = l @ [rq]\<rparr>))"
  by (simp add: oauth_callback_def and_then_def config_get_def getitem_def
      loaded_env_keys loaded_TOKEN_URL loaded_APP_CALLBACK_URL
      requests_post_def requests_call_def lift_def ret_def resp_json_def Let_def
      split: option.splits sum.splits)

lemma example_call:
  "sent (snd (oauth_callback isprintable (answering b) ''c0de''
       \<lparr>CONFIG = loaded example_env, sent = []\<rparr>)) = [] @ [\<lparr>verb = POST, url = PyStr ''https://auth.riotgames.com/token'',
       auth = HTTPBasicAuth (PyStr ''my-client'') (PyStr ''s3cret''), headers = [],
       form = [(''grant_type'', PyStr ''authorization_code''), (''code'', PyStr ''c0de''),
               (''redirect_uri'', PyStr ''http://localhost:3000/oauth-callback'')],
       timeout = 10\<rparr>]"
  by (simp add: oauth_callback_run Let_def os_getenv_def example_env_def TIMEOUT_def)

lemma example_answer:
  "answering b [] rq = Some \<lparr>status_code = 200, json_body = b\<rparr>"
  by (simp add: answering_def)

lemma json_body_answer:
  "json_body \<lparr>status_code = 200, json_body = b\<rparr> = b"
  by simp

lemma py_text_simps:
  "int_str 3600 = ''3600''"
  "int_str (- 7) = ''-7''"
  "int_str 1 = ''1''"
  "int_str 2 = ''2''"
  "int_str 3 = ''3''"
  "int_str (- 20) = ''-20''"
  "repr_str isprintable ''openid'' = [CHR 0x27] @ ''openid'' @ [CHR 0x27]"
  "repr_str isprintable ''cpid'' = [CHR 0x27] @ ''cpid'' @ [CHR 0x27]"
  "repr_str isprintable ''Ahri'' = [CHR 0x27] @ ''Ahri'' @ [CHR 0x27]"
  "repr_str isprintable ''id'' = [CHR 0x27] @ ''id'' @ [CHR 0x27]"
  "repr_str isprintable ''it's'' = [CHR 0x22] @ ''it's'' @ [CHR 0x22]"
  by (simp_all add: int_str_def repr_str_def repr_ascii_def Let_def)

lemma repr_str_escapes:
  "\<not> isprintable 0xA0 \<and> \<not> isprintable 0x200B \<and> \<not> isprintable 0xE0001 \<and> isprintable 0xE9 \<Longrightarrow>
     repr_str isprintable
       [CHR ''a'', CHR 0xC2, CHR 0xA0, CHR 0xE2, CHR 0x80, CHR 0x8B,
        CHR 0xF3, CHR 0xA0, CHR 0x80, CHR 0x81, CHR 0xC3, CHR 0xA9, CHR ''b''] =
       [CHR 0x27] @ ''a'' @ [CHR 0x5C] @ ''xa0'' @ [CHR 0x5C] @ ''u200b''
         @ [CHR 0x5C] @ ''U000e0001'' @ [CHR 0xC3, CHR 0xA9] @ ''b'' @ [CHR 0x27]"
  by (simp add: repr_str_def repr_ascii_def escape_code_point_def hex_digit_def
      utf8_length_def Let_def)

lemma latin1_table_examples:
  "\<not> latin1_table 0xA0"
  "\<not> latin1_table 0x200B"
  "\<not> latin1_table 0xE0001"
  "latin1_table 0xE9"
  by (simp_all add: latin1_table_def)

section \<open>The callback handler\<close>

text \<open>
  C1, as the code has it: when the token endpoint's body is the empty JSON object (or JSON
  \<open>null\<close>), the handler returns the script that redirects to exactly \<^verbatim>\<open>/show-data/?\<close>;
  when the body is not a JSON text (the empty body is not one), \<^verbatim>\<open>resp.json()\<close> raises
  and the handler returns no page.
\<close>

theorem oauth_callback_empty_redirect:
  assumes "sent (snd (oauth_callback isprintable net code \<lparr>CONFIG = loaded env, sent = l\<rparr>)) = l @ [rq]"
    and "net l rq = Some r"
  shows "(json_body r = Some (JObj []) \<or> json_body r = Some JNull \<longrightarrow>
            fst (oauth_callback isprintable net code \<lparr>CONFIG = loaded env, sent = l\<rparr>)
              = Inr ''<script>window.location.href = \"/show-data/?\";</script>'')
       \<and> (json_body r = None \<longrightarrow>
            fst (oauth_callback isprintable net code \<lparr>CONFIG = loaded env, sent = l\<rparr>)
              = Inl JSONDecodeError)"
  using assms by (auto simp add: oauth_callback_run Let_def)

theorem oauth_callback_empty_redirect_witness:
  "answering (Some (JObj [])) []
      \<lparr>verb = POST, url = PyStr ''https://auth.riotgames.com/token'',
       auth = HTTPBasicAuth (PyStr ''my-client'') (PyStr ''s3cret''), headers = [],
       form = [(''grant_type'', PyStr ''authorization_code''), (''code'', PyStr ''c0de''),
               (''redirect_uri'', PyStr ''http://localhost:3000/oauth-callback'')],
       timeout = 10\<rparr>
     = Some \<lparr>status_code = 200, json_body = Some (JObj [])\<rparr>
   \<and> fst (oauth_callback latin1_table (answering (Some (JObj []))) ''c0de''
           \<lparr>CONFIG = loaded example_env, sent = []\<rparr>)
       = Inr ''<script>window.location.href = \"/show-data/?\";</script>''"
proof -
  let ?rq = "\<lparr>verb = POST, url = PyStr ''https://auth.riotgames.com/token'',
       auth = HTTPBasicAuth (PyStr ''my-client'') (PyStr ''s3cret''), headers = [],
       form = [(''grant_type'', PyStr ''authorization_code''), (''code'', PyStr ''c0de''),
               (''redirect_uri'', PyStr ''http://localhost:3000/oauth-callback'')],
       timeout = 10\<rparr>"
  let ?r = "\<lparr>status_code = 200, json_body = Some (JObj [])\<rparr>"
  have call: "sent (snd (oauth_callback latin1_table (answering (Some (JObj []))) ''c0de''
           \<lparr>CONFIG = loaded example_env, sent = []\<rparr>)) = [] @ [?rq]"
    by (simp add: oauth_callback_run Let_def os_getenv_def example_env_def TIMEOUT_def)
  have answer: "answering (Some (JObj [])) [] ?rq = Some ?r"
    by (simp add: answering_def)
  from oauth_callback_empty_redirect [OF call answer] answer show ?thesis
    by simp
qed

text \<open>
  The run on which C1 as written fails: the token endpoint answers with a body that does
  not parse as JSON, and the handler raises instead of redirecting.
\<close>

theorem oauth_callback_non_json_body_raises:
  "fst (oauth_callback latin1_table (answering None) ''c0de'' \<lparr>CONFIG = loaded example_env, sent = []\<rparr>)
     = Inl JSONDecodeError"
  by (simp add: oauth_callback_run answering_def Let_def)

text \<open>
  C2: when the token endpoint answers the handler's call with a body that is a JSON
  object, the page redirects to \<^verbatim>\<open>/show-data/?\<close> followed by one \<^verbatim>\<open>key=value&\<close> fragment
  per item of the object, in the order of its items, the value being the text
  \<^verbatim>\<open>f'{v}'\<close> gives it. For the object with \<^verbatim>\<open>access_token\<close> \<^verbatim>\<open>abc\<close> and \<^verbatim>\<open>token_type\<close>
  \<^verbatim>\<open>bearer\<close> the target is exactly \<^verbatim>\<open>/show-data/?access_token=abc&token_type=bearer&\<close>;
  a number, a list, a bool, \<^verbatim>\<open>null\<close> and a nested object print as Python prints them, and
  a code point inside a list that is not printable is escaped (a no-break space as
  \<^verbatim>\<open>\xa0\<close>).
\<close>

theorem oauth_callback_redirect_query:
  assumes "sent (snd (oauth_callback isprintable net code \<lparr>CONFIG = loaded env, sent = l\<rparr>)) = l @ [rq]"
    and "net l rq = Some r"
  shows "(json_body r = Some (JObj kvs) \<longrightarrow>
            fst (oauth_callback isprintable net code \<lparr>CONFIG = loaded env, sent = l\<rparr>)
              = Inr (''<script>window.location.href = \"/show-data/?''
                     @ concat (map (\<lambda>(k, v). k @ ''='' @ py_str isprintable v @ ''&'') kvs)
                     @ ''\";</script>''))
       \<and> (json_body r = Some (JObj [(''access_token'', JStr ''abc''), (''token_type'', JStr ''bearer'')]) \<longrightarrow>
            fst (oauth_callback isprintable net code \<lparr>CONFIG = loaded env, sent = l\<rparr>)
              = Inr ''<script>window.location.href = \"/show-data/?access_token=abc&token_type=bearer&\";</script>'')
       \<and> (json_body r = Some (JObj
              [(''access_token'', JStr ''abc''), (''expires_in'', JInt 3600),
               (''scope'', JArr [JStr ''openid'', JStr ''cpid'', JInt (- 7)]),
               (''ok'', JBool True), (''id_token'', JNull),
               (''sub'', JObj [(''it's'', JFloat ''1.5'')])]) \<longrightarrow>
            fst (oauth_callback isprintable net code \<lparr>CONFIG = loaded env, sent = l\<rparr>)
              = Inr ''<script>window.location.href = \"/show-data/?access_token=abc&expires_in=3600&scope=['openid', 'cpid', -7]&ok=True&id_token=None&sub={\"it's\": 1.5}&\";</script>'')
       \<and> (json_body r = Some (JObj [(''n'', JArr [JStr [CHR ''a'', CHR 0xC2, CHR 0xA0, CHR 0xE2, CHR 0x80, CHR 0x8B,
                  CHR 0xF3, CHR 0xA0, CHR 0x80, CHR 0x81, CHR 0xC3, CHR 0xA9, CHR ''b'']])]) \<and> \<not> isprintable 0xA0 \<and> \<not> isprintable 0x200B \<and> \<not> isprintable 0xE0001 \<and> isprintable 0xE9 \<longrightarrow>
            fst (oauth_callback isprintable net code \<lparr>CONFIG = loaded env, sent = l\<rparr>)
              = Inr (''<script>window.location.href = \"/show-data/?n=['a'' @ [CHR 0x5C] @ ''xa0'' @ [CHR 0x5C] @ ''u200b'' @ [CHR 0x5C] @ ''U000e0001'' @ [CHR 0xC3, CHR 0xA9] @ ''b']&\";</script>''))"
  using assms
  by (auto simp add: oauth_callback_run Let_def query_loop_concat py_text_simps repr_str_escapes)

theorem oauth_callback_redirect_query_witness:
  "answering (Some (JObj [(''access_token'', JStr ''abc''), (''token_type'', JStr ''bearer'')])) [] \<lparr>verb = POST, url = PyStr ''https://auth.riotgames.com/token'',
       auth = HTTPBasicAuth (PyStr ''my-client'') (PyStr ''s3cret''), headers = [],
       form = [(''grant_type'', PyStr ''authorization_code''), (''code'', PyStr ''c0de''),
               (''redirect_uri'', PyStr ''http://localhost:3000/oauth-callback'')],
       timeout = 10\<rparr>
     = Some \<lparr>status_code = 200, json_body = Some (JObj [(''access_token'', JStr ''abc''), (''token_type'', JStr ''bearer'')])\<rparr>
   \<and> fst (oauth_callback latin1_table (answering (Some (JObj [(''access_token'', JStr ''abc''), (''token_type'', JStr ''bearer'')]))) ''c0de''
           \<lparr>CONFIG = loaded example_env, sent = []\<rparr>)
       = Inr ''<script>window.location.href = \"/show-data/?access_token=abc&token_type=bearer&\";</script>''
   \<and> fst (oauth_callback latin1_table
           (answering (Some (JObj
              [(''access_token'', JStr ''abc''), (''expires_in'', JInt 3600),
               (''scope'', JArr [JStr ''openid'', JStr ''cpid'', JInt (- 7)]),
               (''ok'', JBool True), (''id_token'', JNull),
               (''sub'', JObj [(''it's'', JFloat ''1.5'')])])))
           ''c0de'' \<lparr>CONFIG = loaded example_env, sent = []\<rparr>)
       = Inr ''<script>window.location.href = \"/show-data/?access_token=abc&expires_in=3600&scope=['openid', 'cpid', -7]&ok=True&id_token=None&sub={\"it's\": 1.5}&\";</script>''
   \<and> \<not> latin1_table 0xA0 \<and> \<not> latin1_table 0x200B \<and> \<not> latin1_table 0xE0001 \<and> latin1_table 0xE9
   \<and> fst (oauth_callback latin1_table (answering (Some (JObj [(''n'', JArr [JStr [CHR ''a'', CHR 0xC2, CHR 0xA0, CHR 0xE2, CHR 0x80, CHR 0x8B,
                  CHR 0xF3, CHR 0xA0, CHR 0x80, CHR 0x81, CHR 0xC3, CHR 0xA9, CHR ''b'']])]))) ''c0de''
           \<lparr>CONFIG = loaded example_env, sent = []\<rparr>)
       = Inr (''<script>window.location.href = \"/show-data/?n=['a'' @ [CHR 0x5C] @ ''xa0'' @ [CHR 0x5C] @ ''u200b'' @ [CHR 0x5C] @ ''U000e0001'' @ [CHR 0xC3, CHR 0xA9] @ ''b']&\";</script>'')"
proof -
  have t: "\<not> latin1_table 0xA0 \<and> \<not> latin1_table 0x200B \<and> \<not> latin1_table 0xE0001 \<and> latin1_table 0xE9"
    by (simp add: latin1_table_examples)
  note a1 = oauth_callback_redirect_query
      [OF example_call [of latin1_table "Some (JObj [(''access_token'', JStr ''abc''), (''token_type'', JStr ''bearer'')])"] example_answer]
  note a2 = oauth_callback_redirect_query
      [OF example_call [of latin1_table "Some (JObj
              [(''access_token'', JStr ''abc''), (''expires_in'', JInt 3600),
               (''scope'', JArr [JStr ''openid'', JStr ''cpid'', JInt (- 7)]),
               (''ok'', JBool True), (''id_token'', JNull),
               (''sub'', JObj [(''it's'', JFloat ''1.5'')])])"] example_answer]
  note a3 = oauth_callback_redirect_query
      [OF example_call [of latin1_table "Some (JObj [(''n'', JArr [JStr [CHR ''a'', CHR 0xC2, CHR 0xA0, CHR 0xE2, CHR 0x80, CHR 0x8B,
                  CHR 0xF3, CHR 0xA0, CHR 0x80, CHR 0x81, CHR 0xC3, CHR 0xA9, CHR ''b'']])])"] example_answer]
  note r1 = a1 [THEN conjunct2, THEN conjunct1, rule_format, OF json_body_answer]
  note r2 = a2 [THEN conjunct2, THEN conjunct2, THEN conjunct1, rule_format, OF json_body_answer]
  note r3 = a3 [THEN conjunct2, THEN conjunct2, THEN conjunct2, rule_format,
      OF conjI [OF json_body_answer t]]
  from example_answer r1 r2 latin1_table_examples r3 show ?thesis
    by (intro conjI)
qed

text \<open>
  C6: for every code, whatever the network answers, the handler makes exactly one call:
  a POST to the configured token URL, with HTTP Basic authentication from the configured
  \<^verbatim>\<open>RSO_CLIENT_ID\<close> and \<^verbatim>\<open>RSO_CLIENT_SECRET\<close>, the form fields \<^verbatim>\<open>grant_type\<close>
  (\<^verbatim>\<open>authorization_code\<close>), \<^verbatim>\<open>code\<close> (the code received) and \<^verbatim>\<open>redirect_uri\<close> (the
  configured callback URL) and no other, and the fixed timeout of 10 seconds.
\<close>

theorem oauth_callback_token_request:
  "\<exists>token_url client_id client_secret callback_url.
     loaded env ''TOKEN_URL'' = Some token_url
   \<and> loaded env ''RSO_CLIENT_ID'' = Some client_id
   \<and> loaded env ''RSO_CLIENT_SECRET'' = Some client_secret
   \<and> loaded env ''APP_CALLBACK_URL'' = Some callback_url
   \<and> sent (snd (oauth_callback isprintable net code \<lparr>CONFIG = loaded env, sent = l\<rparr>))
       = l @ [\<lparr>verb = POST, url = token_url,
               auth = HTTPBasicAuth client_id client_secret, headers = [],
               form = [(''grant_type'', PyStr ''authorization_code''),
                       (''code'', PyStr code),
                       (''redirect_uri'', callback_url)],
               timeout = 10\<rparr>]"
  by (simp add: oauth_callback_run Let_def loaded_env_keys loaded_TOKEN_URL
      loaded_APP_CALLBACK_URL TIMEOUT_def)

text \<open>
  C10: the handler applies no URL encoding. Every item of the token object, whatever the
  other items are, contributes its key, \<^verbatim>\<open>=\<close>, the text of its value and \<^verbatim>\<open>&\<close>, and a
  string value is its own text, character for character; so a value that holds \<^verbatim>\<open>&\<close>,
  \<^verbatim>\<open>=\<close>, \<^verbatim>\<open>?\<close> or a space changes the structure of the query: the object whose item
  \<^verbatim>\<open>a\<close> has the value \<^verbatim>\<open>x&b=y z?\<close> gives the same page as the object with the two items
  \<^verbatim>\<open>a\<close> and \<^verbatim>\<open>b\<close>.
\<close>

theorem oauth_callback_no_url_encoding:
  assumes "sent (snd (oauth_callback isprintable net code \<lparr>CONFIG = loaded env, sent = l\<rparr>)) = l @ [rq]"
    and "net l rq = Some r"
  shows "(json_body r = Some (JObj (kvs1 @ (k, v) # kvs2)) \<longrightarrow>
            fst (oauth_callback isprintable net code \<lparr>CONFIG = loaded env, sent = l\<rparr>)
              = Inr (''<script>window.location.href = \"/show-data/?''
                     @ concat (map (\<lambda>(k, v). k @ ''='' @ py_str isprintable v @ ''&'') kvs1)
                     @ k @ ''='' @ py_str isprintable v @ ''&''
                     @ concat (map (\<lambda>(k, v). k @ ''='' @ py_str isprintable v @ ''&'') kvs2)
                     @ ''\";</script>''))
       \<and> (json_body r = Some (JObj (kvs1 @ (k, JStr s) # kvs2)) \<longrightarrow>
            fst (oauth_callback isprintable net code \<lparr>CONFIG = loaded env, sent = l\<rparr>)
              = Inr (''<script>window.location.href = \"/show-data/?''
                     @ concat (map (\<lambda>(k, v). k @ ''='' @ py_str isprintable v @ ''&'') kvs1)
                     @ k @ ''='' @ s @ ''&''
                     @ concat (map (\<lambda>(k, v). k @ ''='' @ py_str isprintable v @ ''&'') kvs2)
                     @ ''\";</script>''))
       \<and> (json_body r = Some (JObj [(''a'', JStr ''x&b=y z?''), (''expires_in'', JInt 3600)])
            \<or> json_body r = Some (JObj [(''a'', JStr ''x''), (''b'', JStr ''y z?''),
                                          (''expires_in'', JInt 3600)]) \<longrightarrow>
            fst (oauth_callback isprintable net code \<lparr>CONFIG = loaded env, sent = l\<rparr>)
              = Inr ''<script>window.location.href = \"/show-data/?a=x&b=y z?&expires_in=3600&\";</script>'')"
  using assms
  by (auto simp add: oauth_callback_run Let_def query_loop_concat py_text_simps)

theorem oauth_callback_no_url_encoding_witness:
  "answering (Some (JObj [(''a'', JStr ''x&b=y z?''), (''expires_in'', JInt 3600)])) [] \<lparr>verb = POST, url = PyStr ''https://auth.riotgames.com/token'',
       auth = HTTPBasicAuth (PyStr ''my-client'') (PyStr ''s3cret''), headers = [],
       form = [(''grant_type'', PyStr ''authorization_code''), (''code'', PyStr ''c0de''),
               (''redirect_uri'', PyStr ''http://localhost:3000/oauth-callback'')],
       timeout = 10\<rparr>
     = Some \<lparr>status_code = 200,
             json_body = Some (JObj [(''a'', JStr ''x&b=y z?''), (''expires_in'', JInt 3600)])\<rparr>
   \<and> fst (oauth_callback latin1_table
           (answering (Some (JObj [(''a'', JStr ''x&b=y z?''), (''expires_in'', JInt 3600)])))
           ''c0de'' \<lparr>CONFIG = loaded example_env, sent = []\<rparr>)
       = Inr ''<script>window.location.href = \"/show-data/?a=x&b=y z?&expires_in=3600&\";</script>''"
proof -
  note a = oauth_callback_no_url_encoding
      [OF example_call [of latin1_table
            "Some (JObj [(''a'', JStr ''x&b=y z?''), (''expires_in'', JInt 3600)])"]
          example_answer,
       where ?kvs1.0 = "[]" and k = "''a''" and v = "JStr ''x&b=y z?''"
         and ?kvs2.0 = "[(''expires_in'', JInt 3600)]"]
  from a [THEN conjunct1]
  have "fst (oauth_callback latin1_table
           (answering (Some (JObj [(''a'', JStr ''x&b=y z?''), (''expires_in'', JInt 3600)])))
           ''c0de'' \<lparr>CONFIG = loaded example_env, sent = []\<rparr>)
       = Inr ''<script>window.location.href = \"/show-data/?a=x&b=y z?&expires_in=3600&\";</script>''"
    by (simp add: py_text_simps)
  with example_answer show ?thesis
    by (intro conjI)
qed

section \<open>Helper facts on the handlers\<close>

lemma login_run:
  "login \<lparr>CONFIG = loaded env, sent = l\<rparr> =
     (case loaded env ''SIGN_IN_URL'' of
        None \<Rightarrow> (Inl (KeyError ''SIGN_IN_URL''), \<lparr>CONFIG = loaded env, sent = l\<rparr>)
      | Some u \<Rightarrow>
          (Inr (''\<newline>''
             @ ''    <h1>login</h1>\<newline>''
             @ ''    <a href=\"'' @ py_format u @ ''\">Sign In --> '' @ py_format u @ ''</a>\<newline>''
             @ ''    ''),
           \<lparr>CONFIG = loaded env, sent = l\<rparr>))"
  by (simp add: login_def and_then_def config_get_def getitem_def ret_def split: option.splits)

lemma CONFIG_and_then:
  assumes "\<And>s. CONFIG (snd (m s)) = CONFIG s" and "\<And>x s. CONFIG (snd (f x s)) = CONFIG s"
  shows "CONFIG (snd (and_then m f s)) = CONFIG s"
proof (cases "m s")
  case (Pair r s')
  with assms(1) [of s] have s': "CONFIG s' = CONFIG s" by simp
  show ?thesis
  proof (cases r)
    case (Inl e)
    with Pair s' show ?thesis by (simp add: and_then_def)
  next
    case (Inr x)
    with Pair s' assms(2) [of x s'] show ?thesis by (simp add: and_then_def)
  qed
qed

lemma CONFIG_ret: "CONFIG (snd (ret x s)) = CONFIG s"
  by (simp add: ret_def)

lemma CONFIG_lift: "CONFIG (snd (lift r s)) = CONFIG s"
  by (simp add: lift_def)

lemma CONFIG_config_get: "CONFIG (snd (config_get k s)) = CONFIG s"
  by (simp add: config_get_def)

lemma CONFIG_requests_call: "CONFIG (snd (requests_call net rq s)) = CONFIG s"
  by (simp add: requests_call_def)

lemmas CONFIG_steps =
  CONFIG_and_then CONFIG_ret CONFIG_lift CONFIG_config_get CONFIG_requests_call

lemma CONFIG_login: "CONFIG (snd (login s)) = CONFIG s"
  unfolding login_def by (intro CONFIG_steps)

lemma CONFIG_oauth_callback: "CONFIG (snd (oauth_callback isprintable net code s)) = CONFIG s"
  unfolding oauth_callback_def requests_post_def
  by (intro CONFIG_steps) (auto intro!: CONFIG_steps)

lemma CONFIG_show_data: "CONFIG (snd (show_data isprintable net tok s)) = CONFIG s"
  unfolding show_data_def get_account_data_def get_champion_rotation_data_def requests_get_def
  by (intro CONFIG_steps)

lemma os_getenv_other:
  "k \<noteq> k' \<Longrightarrow> os_getenv (env(k' := v)) k = os_getenv env k"
  by (simp add: os_getenv_def)

lemma loaded_CLIENT_ID_only:
  "loaded (env(''CLIENT_ID'' := v)) =
     (loaded env)(''CLIENT_ID'' \<mapsto> os_getenv (env(''CLIENT_ID'' := v)) ''CLIENT_ID'')"
  by (rule ext) (simp add: loaded_def module_init_eq os_getenv_other)

lemma json2table_JObj:
  "json2table isprintable (JObj kvs) =
     Inr (table_style @ table_head @ concat (map (\<lambda>(k, v). table_row isprintable k v) kvs) @ table_foot)"
  by (simp add: json2table_def seq_def table_loop_concat)


lemma show_data_run:
  "show_data isprintable net access_token \<lparr>CONFIG = loaded env, sent = l\<rparr> =
     (let account_rq = \<lparr>verb = GET,
            url = PyStr ''https://americas.api.riotgames.com/riot/account/v1/accounts/me'',
            auth = NoAuth,
            headers = [(''Authorization'', PyStr (''Bearer '' @ access_token))],
            form = [], timeout = TIMEOUT\<rparr>;
          rotation_rq = \<lparr>verb = GET,
            url = PyStr ''https://na1.api.riotgames.com/lol/platform/v3/champion-rotations'',
            auth = NoAuth,
            headers = [(''X-Riot-Token'', os_getenv env ''RGAPI_TOKEN'')],
            form = [], timeout = TIMEOUT\<rparr>;
          s1 = \<lparr>CONFIG = loaded env, sent = l @ [account_rq]\<rparr>;
          s2 = \<lparr>CONFIG = loaded env, sent = l @ [account_rq, rotation_rq]\<rparr>
      in case net l account_rq of
           None \<Rightarrow> (Inl RequestException, s1)
         | Some r1 \<Rightarrow>
            (case json_body r1 of
               None \<Rightarrow> (Inl JSONDecodeError, s1)
             | Some j1 \<Rightarrow>
                (case json2table isprintable j1 of
                   Inl e \<Rightarrow> (Inl e, s1)
                 | Inr t1 \<Rightarrow>
                    (case net (l @ [account_rq]) rotation_rq of
                       None \<Rightarrow> (Inl RequestException, s2)
                     | Some r2 \<Rightarrow>
                        (case json_body r2 of
                           None \<Rightarrow> (Inl JSONDecodeError, s2)
                         | Some j2 \<Rightarrow>
                            (case json2table isprintable j2 of
                               Inl e \<Rightarrow> (Inl e, s2)
                             | Inr t2 \<Rightarrow>
                                (Inr (''\<newline>''
                                   @ ''        '' @ account_html t1 @ ''\<newline>''
                                   @ ''        '' @ champion_rotation_html t2 @ ''\<newline>''
                                   @ ''    ''), s2)))))))"
  by (simp add: show_data_def get_account_data_def get_champion_rotation_data_def
      and_then_def config_get_def getitem_def loaded_env_keys
      requests_get_def requests_call_def lift_def ret_def resp_json_def Let_def
      split: option.splits sum.splits)

section \<open>The configuration and the login handler\<close>

text \<open>
  C3: loading the module succeeds, and the sign-in URL it stores is the authorize URL
  followed by the four query parameters \<^verbatim>\<open>redirect_uri\<close> (the derived callback URL),
  \<^verbatim>\<open>client_id\<close> (from \<^verbatim>\<open>RSO_CLIENT_ID\<close>), \<^verbatim>\<open>response_type\<close> (from \<^verbatim>\<open>RESPONSE_TYPE\<close>)
  and \<^verbatim>\<open>scope\<close> (from \<^verbatim>\<open>SCOPE\<close>), each the text of the configuration value.
\<close>

theorem sign_in_url_parameters:
  "\<exists>authorize_url callback_url client_id response_type scope.
     module_init env = Inr (loaded env)
   \<and> loaded env ''AUTHORIZE_URL'' = Some (PyStr authorize_url)
   \<and> loaded env ''APP_CALLBACK_URL'' = Some (PyStr callback_url)
   \<and> loaded env ''RSO_CLIENT_ID'' = Some client_id
   \<and> loaded env ''RESPONSE_TYPE'' = Some response_type
   \<and> loaded env ''SCOPE'' = Some scope
   \<and> loaded env ''SIGN_IN_URL'' =
       Some (PyStr (authorize_url
         @ ''?redirect_uri='' @ callback_url
         @ ''&client_id='' @ py_format client_id
         @ ''&response_type='' @ py_format response_type
         @ ''&scope='' @ py_format scope))"
  by (simp add: module_init_loaded loaded_env_keys loaded_AUTHORIZE_URL loaded_APP_CALLBACK_URL
      loaded_SIGN_IN_URL)

text \<open>
  C7: the login handler takes no argument and calls no network; on every state reached
  after loading it returns a page (never an exception) whose link has the stored sign-in
  URL as its \<^verbatim>\<open>href\<close>, and it leaves the state as it was, so the page is the same for
  every request.
\<close>

theorem login_page:
  "\<exists>u. loaded env ''SIGN_IN_URL'' = Some (PyStr u)
     \<and> login \<lparr>CONFIG = loaded env, sent = l\<rparr> =
         (Inr (''\<newline>''
            @ ''    <h1>login</h1>\<newline>''
            @ ''    <a href=\"'' @ u @ ''\">Sign In --> '' @ u @ ''</a>\<newline>''
            @ ''    ''),
          \<lparr>CONFIG = loaded env, sent = l\<rparr>)"
  by (simp add: login_run loaded_SIGN_IN_URL)

text \<open>
  C8: loading the module never raises and yields a dictionary with exactly the nine
  settings and the four derived entries: the token URL is the text of \<^verbatim>\<open>RSO_BASE_URL\<close>
  followed by \<^verbatim>\<open>/token\<close>, the callback URL the text of \<^verbatim>\<open>APP_BASE_URL\<close> followed by that
  of \<^verbatim>\<open>APP_CALLBACK_PATH\<close>, the authorize URL the text of \<^verbatim>\<open>RSO_BASE_URL\<close> followed by
  \<^verbatim>\<open>/authorize\<close>, and the sign-in URL the authorize URL followed by the query
  parameters. No handler changes the dictionary, from any state and on any outcome.
\<close>

theorem configuration_resolved_and_immutable:
  "\<exists>rso_base app_base callback_path authorize_url callback_url client_id response_type scope.
     module_init env = Inr (loaded env)
   \<and> dom (loaded env) =
       {''RSO_BASE_URL'', ''RSO_CLIENT_ID'', ''RSO_CLIENT_SECRET'', ''APP_BASE_URL'',
        ''APP_CALLBACK_PATH'', ''CLIENT_ID'', ''RESPONSE_TYPE'', ''SCOPE'', ''RGAPI_TOKEN'',
        ''TOKEN_URL'', ''APP_CALLBACK_URL'', ''AUTHORIZE_URL'', ''SIGN_IN_URL''}
   \<and> loaded env ''RSO_BASE_URL'' = Some rso_base
   \<and> loaded env ''APP_BASE_URL'' = Some app_base
   \<and> loaded env ''APP_CALLBACK_PATH'' = Some callback_path
   \<and> loaded env ''RSO_CLIENT_ID'' = Some client_id
   \<and> loaded env ''RESPONSE_TYPE'' = Some response_type
   \<and> loaded env ''SCOPE'' = Some scope
   \<and> loaded env ''TOKEN_URL'' = Some (PyStr (py_format rso_base @ ''/token''))
   \<and> callback_url = py_format app_base @ py_format callback_path
   \<and> loaded env ''APP_CALLBACK_URL'' = Some (PyStr callback_url)
   \<and> authorize_url = py_format rso_base @ ''/authorize''
   \<and> loaded env ''AUTHORIZE_URL'' = Some (PyStr authorize_url)
   \<and> loaded env ''SIGN_IN_URL'' =
       Some (PyStr (authorize_url
         @ ''?redirect_uri='' @ callback_url
         @ ''&client_id='' @ py_format client_id
         @ ''&response_type='' @ py_format response_type
         @ ''&scope='' @ py_format scope))
   \<and> CONFIG (snd (login s)) = CONFIG s
   \<and> CONFIG (snd (oauth_callback isprintable net code s)) = CONFIG s
   \<and> CONFIG (snd (show_data isprintable net access_token s)) = CONFIG s"
  by (simp add: module_init_loaded dom_loaded loaded_env_keys loaded_TOKEN_URL
      loaded_AUTHORIZE_URL loaded_APP_CALLBACK_URL loaded_SIGN_IN_URL
      CONFIG_login CONFIG_oauth_callback CONFIG_show_data)

section \<open>The table and the display handler\<close>

text \<open>
  C4: for a JSON object, \<^verbatim>\<open>json2table\<close> returns the style sheet, the table head, one
  row per item of the object in the order of its items, and the table foot; a row holds
  the key and the text of the value as they are, with no escaping (a string value is
  its own text; a list prints as Python prints it, a code point inside it that is not
  printable escaped). The keys of an object are distinct, so there is one row per key.
\<close>

theorem json2table_rows:
  "json2table isprintable (JObj kvs) =
     Inr (table_style @ table_head
          @ concat (map (\<lambda>(k, v). table_row isprintable k v) kvs) @ table_foot)
   \<and> (\<forall>k v. table_row isprintable k v = ''\<newline>''
         @ ''                <tr>\<newline>''
         @ ''                    <td class=\"tg-0lax\">'' @ k @ ''</td>\<newline>''
         @ ''                    <td class=\"tg-0lax\">'' @ py_str isprintable v @ ''<br></td>\<newline>''
         @ ''                </tr>'')
   \<and> (\<forall>s. py_str isprintable (JStr s) = s)
   \<and> json2table isprintable (JObj
        [(''freeChampionIds'', JArr [JInt 1, JInt 2, JInt 3]),
         (''gameName'', JStr ''<b>Tom & Jerry</b>''),
         (''tags'', JArr [JStr ''Ahri'', JNull, JBool False, JObj [(''id'', JInt (- 20))]])]) =
       Inr (table_style @ table_head
         @ ''\<newline>''
         @ ''                <tr>\<newline>''
         @ ''                    <td class=\"tg-0lax\">freeChampionIds</td>\<newline>''
         @ ''                    <td class=\"tg-0lax\">[1, 2, 3]<br></td>\<newline>''
         @ ''                </tr>''
         @ ''\<newline>''
         @ ''                <tr>\<newline>''
         @ ''                    <td class=\"tg-0lax\">gameName</td>\<newline>''
         @ ''                    <td class=\"tg-0lax\"><b>Tom & Jerry</b><br></td>\<newline>''
         @ ''                </tr>''
         @ ''\<newline>''
         @ ''                <tr>\<newline>''
         @ ''                    <td class=\"tg-0lax\">tags</td>\<newline>''
         @ ''                    <td class=\"tg-0lax\">['Ahri', None, False, {'id': -20}]<br></td>\<newline>''
         @ ''                </tr>''
         @ table_foot)
   \<and> (\<not> isprintable 0xA0 \<and> \<not> isprintable 0x200B \<and> \<not> isprintable 0xE0001 \<and> isprintable 0xE9 \<longrightarrow>
        json2table isprintable (JObj [(''n'', JArr [JStr [CHR ''a'', CHR 0xC2, CHR 0xA0, CHR 0xE2, CHR 0x80, CHR 0x8B,
                  CHR 0xF3, CHR 0xA0, CHR 0x80, CHR 0x81, CHR 0xC3, CHR 0xA9, CHR ''b'']])]) =
          Inr (table_style @ table_head
         @ ''\<newline>''
         @ ''                <tr>\<newline>''
         @ ''                    <td class=\"tg-0lax\">n</td>\<newline>''
         @ ''                    <td class=\"tg-0lax\">['a'' @ [CHR 0x5C] @ ''xa0'' @ [CHR 0x5C] @ ''u200b'' @ [CHR 0x5C] @ ''U000e0001'' @ [CHR 0xC3, CHR 0xA9] @ ''b']<br></td>\<newline>''
         @ ''                </tr>''
         @ table_foot))
   \<and> (distinct (map fst kvs) \<longrightarrow>
        length (map (\<lambda>(k, v). table_row isprintable k v) kvs) = card (fst ` set kvs))"
proof -
  have "distinct (map fst kvs) \<Longrightarrow> card (fst ` set kvs) = length kvs"
    using distinct_card [of "map fst kvs"] by simp
  then show ?thesis
    by (simp add: json2table_JObj table_row_def py_text_simps repr_str_escapes)
qed

theorem json2table_rows_witness:
  "distinct (map fst
        [(''freeChampionIds'', JArr [JInt 1, JInt 2, JInt 3]),
         (''gameName'', JStr ''<b>Tom & Jerry</b>''),
         (''tags'', JArr [JStr ''Ahri'', JNull, JBool False, JObj [(''id'', JInt (- 20))]])])
   \<and> json2table latin1_table (JObj
        [(''freeChampionIds'', JArr [JInt 1, JInt 2, JInt 3]),
         (''gameName'', JStr ''<b>Tom & Jerry</b>''),
         (''tags'', JArr [JStr ''Ahri'', JNull, JBool False, JObj [(''id'', JInt (- 20))]])]) =
       Inr (table_style @ table_head
         @ ''\<newline>''
         @ ''                <tr>\<newline>''
         @ ''                    <td class=\"tg-0lax\">freeChampionIds</td>\<newline>''
         @ ''                    <td class=\"tg-0lax\">[1, 2, 3]<br></td>\<newline>''
         @ ''                </tr>''
         @ ''\<newline>''
         @ ''                <tr>\<newline>''
         @ ''                    <td class=\"tg-0lax\">gameName</td>\<newline>''
         @ ''                    <td class=\"tg-0lax\"><b>Tom & Jerry</b><br></td>\<newline>''
         @ ''                </tr>''
         @ ''\<newline>''
         @ ''                <tr>\<newline>''
         @ ''                    <td class=\"tg-0lax\">tags</td>\<newline>''
         @ ''                    <td class=\"tg-0lax\">['Ahri', None, False, {'id': -20}]<br></td>\<newline>''
         @ ''                </tr>''
         @ table_foot)
   \<and> card (fst ` set
        [(''freeChampionIds'', JArr [JInt 1, JInt 2, JInt 3]),
         (''gameName'', JStr ''<b>Tom & Jerry</b>''),
         (''tags'', JArr [JStr ''Ahri'', JNull, JBool False, JObj [(''id'', JInt (- 20))]])]) = 3
   \<and> \<not> latin1_table 0xA0 \<and> \<not> latin1_table 0x200B \<and> \<not> latin1_table 0xE0001 \<and> latin1_table 0xE9
   \<and> json2table latin1_table (JObj [(''n'', JArr [JStr [CHR ''a'', CHR 0xC2, CHR 0xA0, CHR 0xE2, CHR 0x80, CHR 0x8B,
                  CHR 0xF3, CHR 0xA0, CHR 0x80, CHR 0x81, CHR 0xC3, CHR 0xA9, CHR ''b'']])]) =
          Inr (table_style @ table_head
         @ ''\<newline>''
         @ ''                <tr>\<newline>''
         @ ''                    <td class=\"tg-0lax\">n</td>\<newline>''
         @ ''                    <td class=\"tg-0lax\">['a'' @ [CHR 0x5C] @ ''xa0'' @ [CHR 0x5C] @ ''u200b'' @ [CHR 0x5C] @ ''U000e0001'' @ [CHR 0xC3, CHR 0xA9] @ ''b']<br></td>\<newline>''
         @ ''                </tr>''
         @ table_foot)"
proof -
  note a = json2table_rows [of latin1_table
        "[(''freeChampionIds'', JArr [JInt 1, JInt 2, JInt 3]),
         (''gameName'', JStr ''<b>Tom & Jerry</b>''),
         (''tags'', JArr [JStr ''Ahri'', JNull, JBool False, JObj [(''id'', JInt (- 20))]])]"]
  have d: "distinct (map fst
        [(''freeChampionIds'', JArr [JInt 1, JInt 2, JInt 3]),
         (''gameName'', JStr ''<b>Tom & Jerry</b>''),
         (''tags'', JArr [JStr ''Ahri'', JNull, JBool False, JObj [(''id'', JInt (- 20))]])])"
    by simp
  have t: "\<not> latin1_table 0xA0 \<and> \<not> latin1_table 0x200B \<and> \<not> latin1_table 0xE0001 \<and> latin1_table 0xE9"
    by (simp add: latin1_table_examples)
  note rows = a [THEN conjunct2, THEN conjunct2, THEN conjunct2, THEN conjunct1]
  note nbsp = a [THEN conjunct2, THEN conjunct2, THEN conjunct2, THEN conjunct2,
      THEN conjunct1, rule_format, OF t]
  note keys = a [THEN conjunct2, THEN conjunct2, THEN conjunct2, THEN conjunct2,
      THEN conjunct2, rule_format, OF d]
  have c: "card (fst ` set
        [(''freeChampionIds'', JArr [JInt 1, JInt 2, JInt 3]),
         (''gameName'', JStr ''<b>Tom & Jerry</b>''),
         (''tags'', JArr [JStr ''Ahri'', JNull, JBool False, JObj [(''id'', JInt (- 20))]])]) = 3"
    using keys by simp
  from d rows c latin1_table_examples nbsp show ?thesis
    by (intro conjI)
qed



section \<open>The unused setting\<close>

text \<open>
  C9: the \<^verbatim>\<open>client_id\<close> parameter of the sign-in URL comes from \<^verbatim>\<open>RSO_CLIENT_ID\<close>, and
  the variable \<^verbatim>\<open>CLIENT_ID\<close> only sets the dictionary entry of its name: changing it
  (to any text, or unsetting it) changes no other entry, and every handler returns the
  same result and makes the same calls on the same request and the same network.
\<close>

theorem client_id_noninterference:
  "\<exists>pre post client_id.
     loaded env ''RSO_CLIENT_ID'' = Some client_id
   \<and> loaded env ''SIGN_IN_URL'' =
       Some (PyStr (pre @ ''&client_id='' @ py_format client_id @ post))
   \<and> loaded (env(''CLIENT_ID'' := v)) =
     (loaded env)(''CLIENT_ID'' \<mapsto> os_getenv (env(''CLIENT_ID'' := v)) ''CLIENT_ID'')
   \<and> loaded (env(''CLIENT_ID'' := v)) ''SIGN_IN_URL'' = loaded env ''SIGN_IN_URL''
   \<and> fst (login \<lparr>CONFIG = loaded (env(''CLIENT_ID'' := v)), sent = l\<rparr>)
       = fst (login \<lparr>CONFIG = loaded env, sent = l\<rparr>)
   \<and> sent (snd (login \<lparr>CONFIG = loaded (env(''CLIENT_ID'' := v)), sent = l\<rparr>))
       = sent (snd (login \<lparr>CONFIG = loaded env, sent = l\<rparr>))
   \<and> fst (oauth_callback isprintable net code \<lparr>CONFIG = loaded (env(''CLIENT_ID'' := v)), sent = l\<rparr>)
       = fst (oauth_callback isprintable net code \<lparr>CONFIG = loaded env, sent = l\<rparr>)
   \<and> sent (snd (oauth_callback isprintable net code \<lparr>CONFIG = loaded (env(''CLIENT_ID'' := v)), sent = l\<rparr>))
       = sent (snd (oauth_callback isprintable net code \<lparr>CONFIG = loaded env, sent = l\<rparr>))
   \<and> fst (show_data isprintable net access_token \<lparr>CONFIG = loaded (env(''CLIENT_ID'' := v)), sent = l\<rparr>)
       = fst (show_data isprintable net access_token \<lparr>CONFIG = loaded env, sent = l\<rparr>)
   \<and> sent (snd (show_data isprintable net access_token \<lparr>CONFIG = loaded (env(''CLIENT_ID'' := v)), sent = l\<rparr>))
       = sent (snd (show_data isprintable net access_token \<lparr>CONFIG = loaded env, sent = l\<rparr>))"
proof -
  let ?env' = "env(''CLIENT_ID'' := v)"
  have cfg: "loaded ?env' = (loaded env)(''CLIENT_ID'' \<mapsto> os_getenv ?env' ''CLIENT_ID'')"
    by (rule loaded_CLIENT_ID_only)
  have url: "loaded ?env' ''SIGN_IN_URL'' = loaded env ''SIGN_IN_URL''"
    by (simp add: loaded_SIGN_IN_URL os_getenv_other)
  have lg: "fst (login \<lparr>CONFIG = loaded ?env', sent = l\<rparr>) = fst (login \<lparr>CONFIG = loaded env, sent = l\<rparr>)"
    "sent (snd (login \<lparr>CONFIG = loaded ?env', sent = l\<rparr>)) = sent (snd (login \<lparr>CONFIG = loaded env, sent = l\<rparr>))"
    by (simp_all add: login_run loaded_SIGN_IN_URL os_getenv_other)
  have cb: "fst (oauth_callback isprintable net code \<lparr>CONFIG = loaded ?env', sent = l\<rparr>)
       = fst (oauth_callback isprintable net code \<lparr>CONFIG = loaded env, sent = l\<rparr>)"
    "sent (snd (oauth_callback isprintable net code \<lparr>CONFIG = loaded ?env', sent = l\<rparr>))
       = sent (snd (oauth_callback isprintable net code \<lparr>CONFIG = loaded env, sent = l\<rparr>))"
    by (simp_all add: oauth_callback_run os_getenv_other Let_def)
  have sd: "fst (show_data isprintable net access_token \<lparr>CONFIG = loaded ?env', sent = l\<rparr>)
       = fst (show_data isprintable net access_token \<lparr>CONFIG = loaded env, sent = l\<rparr>)"
    "sent (snd (show_data isprintable net access_token \<lparr>CONFIG = loaded ?env', sent = l\<rparr>))
       = sent (snd (show_data isprintable net access_token \<lparr>CONFIG = loaded env, sent = l\<rparr>))"
    by (simp_all add: show_data_run os_getenv_other Let_def split: option.splits sum.splits)
  have "loaded env ''SIGN_IN_URL'' =
      Some (PyStr ((py_format (os_getenv env ''RSO_BASE_URL'') @ ''/authorize''
              @ ''?redirect_uri='' @ py_format (os_getenv env ''APP_BASE_URL'')
              @ py_format (os_getenv env ''APP_CALLBACK_PATH''))
        @ ''&client_id='' @ py_format (os_getenv env ''RSO_CLIENT_ID'')
        @ (''&response_type='' @ py_format (os_getenv env ''RESPONSE_TYPE'')
              @ ''&scope='' @ py_format (os_getenv env ''SCOPE''))))"
    by (simp add: loaded_SIGN_IN_URL)
  then have par: "\<exists>pre post client_id.
      loaded env ''RSO_CLIENT_ID'' = Some client_id
    \<and> loaded env ''SIGN_IN_URL'' = Some (PyStr (pre @ ''&client_id='' @ py_format client_id @ post))"
    using loaded_env_keys(2) [of env] by blast
  from par cfg url lg cb sd show ?thesis by blast
qed

end
